theory Spec2Isabelle
  imports
    Complex_Main
    "HOL-Library.Sublist"
    "HOL-Library.Product_Lexorder"
    "HOL-Library.List_Lexorder"
    "HOL-Library.Char_ord"
begin

section \<open>Expense tracker assistant: an embedding of \<open>main.py\<close>\<close>

text \<open>
  The service of \<open>main.py\<close> has three endpoints (\<open>upload_expenses\<close>, \<open>chat\<close>,
  \<open>health_check\<close>) and two helpers (\<open>call_lm_studio\<close>, \<open>process_excel_data\<close>).
  The helpers and the endpoints are embedded below. The libraries they drive (pandas, the
  embedding model, the Chroma client, httpx) are outside the source: their results are read
  from an environment record, one field per call, so that every way a call can end is an
  input of the model.

  Python strings are \<open>string\<close>. A price is the binary double of its cell, given by its
  exact value (\<open>rat\<close>); what pandas and Python compute from doubles (sums, means, the
  format \<open>.2f\<close>) is read from the environment too.
\<close>

subsection \<open>Strings and number formatting\<close>

text \<open>\<open>str.endswith\<close> with a tuple of suffixes.\<close>

definition endswith :: "string \<Rightarrow> string list \<Rightarrow> bool" where
  "endswith s sufs = (\<exists>x \<in> set sufs. suffix x s)"

text \<open>
  \<open>str.replace(old, new)\<close> for a non-empty \<open>old\<close>: scans from the left and replaces every
  non-overlapping occurrence.
\<close>

function replace :: "string \<Rightarrow> string \<Rightarrow> string \<Rightarrow> string" where
  "replace old new s =
     (if old = [] \<or> s = [] then s
      else if prefix old s then new @ replace old new (drop (length old) s)
      else hd s # replace old new (tl s))"
  by pat_completeness auto
termination
  by (relation "measure (\<lambda>(old, new, s). length s)") auto

text \<open>\<open>str.join\<close>.\<close>

fun join :: "string \<Rightarrow> string list \<Rightarrow> string" where
  "join sep [] = []"
| "join sep [x] = x"
| "join sep (x # y # ys) = x @ sep @ join sep (y # ys)"

definition digit_char :: "nat \<Rightarrow> char" where
  "digit_char d = char_of (48 + d)"

text \<open>\<open>str(n)\<close> of a non-negative integer.\<close>

function str_nat :: "nat \<Rightarrow> string" where
  "str_nat n = (if n < 10 then [digit_char n] else str_nat (n div 10) @ [digit_char (n mod 10)])"
  by pat_completeness auto
termination
  by (relation "measure id") auto

text \<open>The two recursive equations are applied by hand, not by the simplifier.\<close>

declare replace.simps [simp del]
declare str_nat.simps [simp del]

definition zfill :: "nat \<Rightarrow> string \<Rightarrow> string" where
  "zfill w s = replicate (w - length s) (CHR ''0'') @ s"

subsection \<open>Exceptions\<close>

text \<open>
  \<open>HTTPException status detail\<close> is FastAPI's exception; the other constructors are the
  exceptions that the libraries raise, with the value they carry.
\<close>

datatype exn =
    HTTPException nat string
  | ValueError string
  | KeyError string
  | IndexError
  | TypeError
  | ValidationError
  | HTTPStatusError nat
  | TransportError string
  | LibraryError string

subsection \<open>The data frame\<close>

text \<open>
  A date cell of the sheet is either a value that \<open>pd.to_datetime\<close> converts, given by its
  year, month and day, or a value on which it raises, given by its text.
\<close>

datatype date_cell = Timestamp nat nat nat | NotADate string

record row =
  name :: string
  price :: rat
  category :: string
  date :: date_cell

text \<open>
  The frame that \<open>pd.read_excel\<close> returns: the column labels and the rows. The fields of a
  row whose column is absent from \<open>columns\<close> are never read: validation stops the upload first.
\<close>

record dataframe =
  columns :: "string list"
  rows :: "row list"

text \<open>A row after \<open>df['date'] = pd.to_datetime(df['date'])\<close> and \<open>df['month'] = ...to_period('M')\<close>.\<close>

record txn =
  t_name :: string
  t_price :: rat
  t_category :: string
  t_date :: "nat \<times> nat \<times> nat"
  t_month :: "nat \<times> nat"

fun to_datetime :: "date_cell list \<Rightarrow> exn + (nat \<times> nat \<times> nat) list" where
  "to_datetime [] = Inr []"
| "to_datetime (NotADate s # cs) = Inl (ValueError s)"
| "to_datetime (Timestamp y m d # cs) =
     (case to_datetime cs of Inl e \<Rightarrow> Inl e | Inr ds \<Rightarrow> Inr ((y, m, d) # ds))"

definition to_period :: "nat \<times> nat \<times> nat \<Rightarrow> nat \<times> nat" where
  "to_period d = (case d of (y, m, _) \<Rightarrow> (y, m))"

definition mk_txn :: "row \<Rightarrow> nat \<times> nat \<times> nat \<Rightarrow> txn" where
  "mk_txn r d =
     \<lparr>t_name = name r, t_price = price r, t_category = category r, t_date = d,
      t_month = to_period d\<rparr>"

text \<open>\<open>str\<close> of a monthly period and \<open>strftime('%Y-%m-%d')\<close>.\<close>

definition str_period :: "nat \<times> nat \<Rightarrow> string" where
  "str_period p = (case p of (y, m) \<Rightarrow> zfill 4 (str_nat y) @ ''-'' @ zfill 2 (str_nat m))"

definition strftime :: "nat \<times> nat \<times> nat \<Rightarrow> string" where
  "strftime d =
     (case d of (y, m, dd) \<Rightarrow>
        zfill 4 (str_nat y) @ ''-'' @ zfill 2 (str_nat m) @ ''-'' @ zfill 2 (str_nat dd))"

text \<open>
  \<open>df.groupby(key)\<close>: one group per distinct key, in ascending key order, each group holding
  its rows in frame order.
\<close>

definition groupby :: "('r \<Rightarrow> 'k::linorder) \<Rightarrow> 'r list \<Rightarrow> ('k \<times> 'r list) list" where
  "groupby key rs = map (\<lambda>k. (k, filter (\<lambda>r. key r = k) rs)) (sort (remdups (map key rs)))"

subsection \<open>pandas\<close>

text \<open>
  What pandas and Python compute for the chunk builder. \<open>price_sum\<close> and \<open>price_mean\<close> are
  the aggregates \<open>sum\<close> and \<open>mean\<close> of a group of doubles and \<open>format_2f\<close> is
  \<open>f"{x:.2f}"\<close> of a double. \<open>categories_json\<close> is
  \<open>json.dumps(x.value_counts().to_dict(), indent=2)\<close> on the categories of a group.
  \<open>series_str i v\<close> is \<open>str\<close> of the one-element Series named \<open>i\<close> that holds a value
  printed as \<open>v\<close>.
\<close>

record pandas =
  price_sum :: "rat list \<Rightarrow> rat"
  price_mean :: "rat list \<Rightarrow> rat"
  format_2f :: "rat \<Rightarrow> string"
  categories_json :: "string list \<Rightarrow> string"
  series_str :: "nat \<Rightarrow> string \<Rightarrow> string"

subsection \<open>The chunk builder\<close>

text \<open>
  A metadata value of a chunk: a string, or a pandas Series, given by its name and the text
  of the value it holds.
\<close>

datatype meta_value = Str string | Series nat string

record chunk =
  chunk_text :: string
  metadata :: "(string \<times> meta_value) list"

text \<open>
  The rows of \<open>monthly_summary\<close>, numbered from 0 by \<open>reset_index\<close>: month, sum and count
  of the prices, categories of the group.
\<close>

definition monthly_summary ::
  "pandas \<Rightarrow> txn list \<Rightarrow> (nat \<times> (nat \<times> nat) \<times> rat \<times> nat \<times> string list) list" where
  "monthly_summary P ts =
     enumerate 0
       (map (\<lambda>(m, g). (m, price_sum P (map t_price g), length g, map t_category g))
          (groupby t_month ts))"

text \<open>The rows of \<open>category_summary\<close>: category, sum, mean and count of the prices.\<close>

definition category_summary ::
  "pandas \<Rightarrow> txn list \<Rightarrow> (nat \<times> string \<times> rat \<times> rat \<times> nat) list" where
  "category_summary P ts =
     enumerate 0
       (map (\<lambda>(c, g). (c, price_sum P (map t_price g), price_mean P (map t_price g), length g))
          (groupby t_category ts))"

text \<open>
  Both frames have two-level column labels (the aggregation is given as a dict of lists), so
  in the loops over \<open>iterrows()\<close> the subscriptions \<open>row['month']\<close> and \<open>row['category']\<close>
  give a one-element Series named by the number of the row, where \<open>row['price']['sum']\<close>
  gives a number. \<open>str(row['month'])\<close> and the f-string print the Series; the metadata of a
  category chunk holds the Series itself.
\<close>

definition monthly_chunk :: "pandas \<Rightarrow> nat \<times> (nat \<times> nat) \<times> rat \<times> nat \<times> string list \<Rightarrow> chunk" where
  "monthly_chunk P r =
     (case r of (i, m, tot, cnt, cats) \<Rightarrow>
        let month = series_str P i (str_period m)
        in \<lparr>chunk_text = ''Month: '' @ month @ ''\<newline>        Total expenses: $'' @ format_2f P tot
                 @ ''\<newline>        Number of transactions: '' @ str_nat cnt
                 @ ''\<newline>        Categories: '' @ categories_json P cats,
            metadata = [(''type'', Str ''monthly_summary''), (''month'', Str month)]\<rparr>)"

definition category_chunk :: "pandas \<Rightarrow> nat \<times> string \<times> rat \<times> rat \<times> nat \<Rightarrow> chunk" where
  "category_chunk P r =
     (case r of (i, c, tot, avg, cnt) \<Rightarrow>
        \<lparr>chunk_text = ''Category: '' @ series_str P i c @ ''\<newline>Total spent: $'' @ format_2f P tot
                 @ ''\<newline>Average transaction: $'' @ format_2f P avg
                 @ ''\<newline>Number of transactions: '' @ str_nat cnt,
         metadata = [(''type'', Str ''category_summary''), (''category'', Series i c)]\<rparr>)"

text \<open>The rows of \<open>df\<close> itself have plain column labels: \<open>row['category']\<close> is a string.\<close>

definition transaction_chunk :: "pandas \<Rightarrow> txn \<Rightarrow> chunk" where
  "transaction_chunk P t =
     \<lparr>chunk_text = ''Transaction on '' @ strftime (t_date t) @ ''\<newline>Name: '' @ t_name t
              @ ''\<newline>Category: '' @ t_category t @ ''\<newline>Amount: $'' @ format_2f P (t_price t),
      metadata = [(''type'', Str ''transaction''), (''date'', Str (strftime (t_date t))),
                  (''category'', Str (t_category t))]\<rparr>"

definition build_chunks :: "pandas \<Rightarrow> txn list \<Rightarrow> chunk list" where
  "build_chunks P ts =
     map (monthly_chunk P) (monthly_summary P ts) @ map (category_chunk P) (category_summary P ts)
       @ map (transaction_chunk P) ts"

text \<open>
  The first two statements of \<open>process_excel_data\<close>: the dates are converted and the
  \<open>month\<close> column is added; the conversion raises on a cell that is not a date.
\<close>

definition parse_dates :: "dataframe \<Rightarrow> exn + txn list" where
  "parse_dates df =
     (case to_datetime (map date (rows df)) of
        Inl e \<Rightarrow> Inl e
      | Inr ds \<Rightarrow> Inr (map2 mk_txn (rows df) ds))"

definition process_excel_data :: "pandas \<Rightarrow> dataframe \<Rightarrow> exn + chunk list" where
  "process_excel_data P df =
     (case parse_dates df of
        Inl e \<Rightarrow> Inl e
      | Inr ts \<Rightarrow> Inr (build_chunks P ts))"

text \<open>The kind of a chunk: the \<open>type\<close> entry of its metadata.\<close>

definition kind :: "chunk \<Rightarrow> string option" where
  "kind c = (case map_of (metadata c) ''type'' of Some (Str s) \<Rightarrow> Some s | _ \<Rightarrow> None)"

subsection \<open>The vector store\<close>

type_synonym vector = "rat list"

record document =
  doc_id :: string
  doc_text :: string
  doc_embedding :: vector
  doc_metadata :: "(string \<times> string) list"

record collection =
  coll_metadata :: "(string \<times> string) list"
  documents :: "document list"

text \<open>The persistent Chroma client holds at most one collection under a name.\<close>

type_synonym store = "string \<rightharpoonup> collection"

subsection \<open>The completion endpoint\<close>

record message =
  role :: string
  content :: string

record completion_request =
  req_url :: string
  req_timeout :: rat
  messages :: "message list"
  temperature :: rat
  max_tokens :: nat
  stream :: bool

datatype json =
    JNull
  | JBool bool
  | JNumber rat
  | JString string
  | JArray "json list"
  | JObject "(string \<times> json) list"

text \<open>
  An HTTP response: its status code and what \<open>response.json()\<close> gives, the decoded body or
  the exception of the decoder.
\<close>

record http_response =
  status_code :: nat
  body :: "exn + json"

subsection \<open>The environment\<close>

text \<open>
  What the libraries answer. \<open>exc_str\<close> is \<open>str(e)\<close>; \<open>pd\<close> holds the operations of
  pandas. \<open>create_fault\<close> and \<open>add_fault\<close> say whether the store refuses a call for a reason
  of its own. \<open>query_result\<close> is the answer of
  \<open>collection.query\<close>: the texts and the metadata of the nearest documents, best first.
\<close>

record env =
  exc_str :: "exn \<Rightarrow> string"
  pd :: pandas
  embed_documents :: "string list \<Rightarrow> exn + vector list"
  embed_query :: "string \<Rightarrow> exn + vector"
  create_fault :: "string \<Rightarrow> exn option"
  add_fault :: "string \<Rightarrow> document list \<Rightarrow> exn option"
  query_result ::
    "collection \<Rightarrow> vector list \<Rightarrow> nat \<Rightarrow> exn + (string list \<times> (string \<times> string) list list)"
  http_post :: "completion_request \<Rightarrow> exn + http_response"
  http_get :: "string \<Rightarrow> rat \<Rightarrow> exn + http_response"

text \<open>The state that requests share: the store, and the requests sent to the completion endpoint.\<close>

record world =
  store :: store
  posts :: "completion_request list"

text \<open>Sequencing of calls that may raise.\<close>

definition and_then :: "exn + 'a \<Rightarrow> ('a \<Rightarrow> exn + 'b) \<Rightarrow> exn + 'b" where
  "and_then r f = (case r of Inl e \<Rightarrow> Inl e | Inr x \<Rightarrow> f x)"

text \<open>The status code that FastAPI answers with: 200 for a returned body.\<close>

definition http_status :: "exn + 'a \<Rightarrow> nat" where
  "http_status r = (case r of Inr _ \<Rightarrow> 200 | Inl (HTTPException c _) \<Rightarrow> c | Inl _ \<Rightarrow> 500)"

subsection \<open>Operations of the Chroma client\<close>

text \<open>\<open>delete_collection\<close> and \<open>get_collection\<close> raise when no collection has the name.\<close>

definition delete_collection :: "string \<Rightarrow> store \<Rightarrow> exn + store" where
  "delete_collection n s = (case s n of None \<Rightarrow> Inl (ValueError n) | Some _ \<Rightarrow> Inr (s(n := None)))"

definition get_collection :: "string \<Rightarrow> store \<Rightarrow> exn + collection" where
  "get_collection n s = (case s n of None \<Rightarrow> Inl (ValueError n) | Some c \<Rightarrow> Inr c)"

text \<open>\<open>create_collection\<close> raises when the name is taken.\<close>

definition create_collection :: "env \<Rightarrow> string \<Rightarrow> (string \<times> string) list \<Rightarrow> store \<Rightarrow> exn + store" where
  "create_collection E n md s =
     (case create_fault E n of
        Some e \<Rightarrow> Inl e
      | None \<Rightarrow>
          (case s n of
             Some _ \<Rightarrow> Inl (ValueError n)
           | None \<Rightarrow> Inr (s(n \<mapsto> \<lparr>coll_metadata = md, documents = []\<rparr>))))"

definition mk_document :: "string \<times> string \<times> vector \<times> (string \<times> string) list \<Rightarrow> document" where
  "mk_document q =
     (case q of (i, t, v, m) \<Rightarrow> \<lparr>doc_id = i, doc_text = t, doc_embedding = v, doc_metadata = m\<rparr>)"

text \<open>Chroma accepts a metadata value that is a string or a number, not a Series.\<close>

fun accepted_value :: "meta_value \<Rightarrow> bool" where
  "accepted_value (Str s) = True"
| "accepted_value (Series i v) = False"

fun value_text :: "meta_value \<Rightarrow> string" where
  "value_text (Str s) = s"
| "value_text (Series i v) = v"

definition accepted_metadata :: "(string \<times> meta_value) list \<Rightarrow> bool" where
  "accepted_metadata m = list_all (\<lambda>kv. accepted_value (snd kv)) m"

text \<open>
  \<open>collection.add\<close> on the collection named \<open>n\<close>. The client validates the batch before it
  reaches the store: the list of ids must not be empty, the four lists must have one
  length, and every metadata value must be accepted. The documents are appended to those the
  collection holds.
\<close>

definition collection_add ::
  "env \<Rightarrow> string \<Rightarrow> string list \<Rightarrow> vector list \<Rightarrow> (string \<times> meta_value) list list \<Rightarrow> string list
     \<Rightarrow> store \<Rightarrow> exn + store" where
  "collection_add E n texts embs metas ids s =
     (if ids = [] then Inl (ValueError ''Expected IDs to be a non-empty list'')
      else if length embs = length ids \<and> length texts = length ids \<and> length metas = length ids
      then
        (if list_all accepted_metadata metas
         then
           (let docs = map mk_document
                  (zip ids (zip texts (zip embs (map (map (\<lambda>kv. (fst kv, value_text (snd kv)))) metas))))
            in case add_fault E n docs of
                 Some e \<Rightarrow> Inl e
               | None \<Rightarrow>
                   (case s n of
                      None \<Rightarrow> Inl (ValueError n)
                    | Some c \<Rightarrow> Inr (s(n \<mapsto> c\<lparr>documents := documents c @ docs\<rparr>))))
         else Inl (ValueError ''Expected metadata value to be a str, int, float or bool''))
      else Inl (ValueError ''Unequal lengths''))"

subsection \<open>The answer generator\<close>

definition LM_STUDIO_URL :: string where
  "LM_STUDIO_URL = ''http://localhost:1234/v1/chat/completions''"

definition system_message :: string where
  "system_message =
     ''You are a helpful financial assistant analyzing expense data. \<newline>''
     @ ''    Use the provided context to answer questions about income, expenses, and spending patterns.\<newline>''
     @ ''    Be concise and specific with numbers. If asked about comparisons, calculate differences and percentages.''"

text \<open>\<open>response.raise_for_status()\<close>: raises unless the status is a success (2xx).\<close>

definition raise_for_status :: "http_response \<Rightarrow> exn + http_response" where
  "raise_for_status r =
     (if 200 \<le> status_code r \<and> status_code r \<le> 299 then Inr r
      else Inl (HTTPStatusError (status_code r)))"

text \<open>Subscription \<open>v[k]\<close> of a decoded JSON value by a string key, and \<open>v[0]\<close>.\<close>

fun subscript_key :: "json \<Rightarrow> string \<Rightarrow> exn + json" where
  "subscript_key (JObject kvs) k = (case map_of kvs k of None \<Rightarrow> Inl (KeyError k) | Some v \<Rightarrow> Inr v)"
| "subscript_key _ k = Inl TypeError"

fun subscript_0 :: "json \<Rightarrow> exn + json" where
  "subscript_0 (JArray vs) = (case vs of [] \<Rightarrow> Inl IndexError | v # _ \<Rightarrow> Inr v)"
| "subscript_0 (JString s) = (case s of [] \<Rightarrow> Inl IndexError | c # _ \<Rightarrow> Inr (JString [c]))"
| "subscript_0 (JObject kvs) = Inl (KeyError ''0'')"
| "subscript_0 _ = Inl TypeError"

definition build_request :: "string \<Rightarrow> string \<Rightarrow> completion_request" where
  "build_request prompt context =
     \<lparr>req_url = LM_STUDIO_URL, req_timeout = 30,
      messages =
        [\<lparr>role = ''system'', content = system_message\<rparr>,
         \<lparr>role = ''user'',
          content = ''Context:\<newline>'' @ context @ ''\<newline>\<newline>Question: '' @ prompt\<rparr>],
      temperature = 7 / 10, max_tokens = 500, stream = False\<rparr>"

text \<open>\<open>result["choices"][0]["message"]["content"]\<close>.\<close>

definition completion_content :: "json \<Rightarrow> exn + json" where
  "completion_content result =
     and_then (subscript_key result ''choices'') (\<lambda>choices.
     and_then (subscript_0 choices) (\<lambda>choice.
     and_then (subscript_key choice ''message'') (\<lambda>msg.
     subscript_key msg ''content'')))"

text \<open>
  \<open>call_lm_studio\<close>: one POST, recorded in \<open>posts\<close>; whatever is raised inside the
  \<open>try\<close> block leaves as an \<open>HTTPException\<close> with status 500.
\<close>

definition call_lm_studio :: "env \<Rightarrow> string \<Rightarrow> string \<Rightarrow> world \<Rightarrow> (exn + json) \<times> world" where
  "call_lm_studio E prompt context w =
     (let req = build_request prompt context;
          w' = w\<lparr>posts := posts w @ [req]\<rparr>;
          attempt =
            and_then (http_post E req) (\<lambda>response.
            and_then (raise_for_status response) (\<lambda>_.
            and_then (body response) (\<lambda>result.
            completion_content result)))
      in case attempt of
           Inl e \<Rightarrow> (Inl (HTTPException 500 (''LM Studio error: '' @ exc_str E e)), w')
         | Inr answer \<Rightarrow> (Inr answer, w'))"

subsection \<open>The upload endpoint\<close>

definition required_columns :: "string list" where
  "required_columns = [''name'', ''price'', ''category'', ''date'']"

text \<open>
  \<open>str\<close> of a list of column names, as the f-string prints \<open>missing_columns\<close>: each name
  between single quotes (the required names hold no quote and no escape).
\<close>

definition str_list :: "string list \<Rightarrow> string" where
  "str_list xs = ''['' @ join '', '' (map (\<lambda>x. [CHR 0x27] @ x @ [CHR 0x27]) xs) @ '']''"

definition collection_name :: "string \<Rightarrow> string" where
  "collection_name user_id = ''expenses_'' @ replace ''-'' ''_'' user_id"

record upload_response =
  up_status :: string
  up_message :: string
  up_user_id :: string

text \<open>
  The \<open>try\<close> block of \<open>upload_expenses\<close>. \<open>read_excel\<close> is what \<open>pd.read_excel(file.file)\<close>
  gives: the frame, or the exception it raises.
\<close>

definition upload_try :: "env \<Rightarrow> exn + dataframe \<Rightarrow> string \<Rightarrow> world \<Rightarrow> (exn + upload_response) \<times> world" where
  "upload_try E read_excel user_id w =
     (case read_excel of
        Inl e \<Rightarrow> (Inl e, w)
      | Inr df \<Rightarrow>
          let missing_columns = filter (\<lambda>col. col \<notin> set (columns df)) required_columns
          in if missing_columns \<noteq> []
             then (Inl (HTTPException 400 (''Missing required columns: '' @ str_list missing_columns)), w)
             else
               (case process_excel_data (pd E) df of
                  Inl e \<Rightarrow> (Inl e, w)
                | Inr chunks \<Rightarrow>
                    let cname = collection_name user_id;
                        s1 = (case delete_collection cname (store w) of Inl _ \<Rightarrow> store w | Inr s \<Rightarrow> s)
                    in case create_collection E cname [(''user_id'', user_id)] s1 of
                         Inl e \<Rightarrow> (Inl e, w\<lparr>store := s1\<rparr>)
                       | Inr s2 \<Rightarrow>
                           let texts = map chunk_text chunks;
                               metadatas = map metadata chunks;
                               ids = map (\<lambda>i. user_id @ ''_'' @ str_nat i) [0..<length chunks]
                           in case embed_documents E texts of
                                Inl e \<Rightarrow> (Inl e, w\<lparr>store := s2\<rparr>)
                              | Inr embeddings_list \<Rightarrow>
                                  (case collection_add E cname texts embeddings_list metadatas ids s2 of
                                     Inl e \<Rightarrow> (Inl e, w\<lparr>store := s2\<rparr>)
                                   | Inr s3 \<Rightarrow>
                                       (Inr \<lparr>up_status = ''success'',
                                             up_message = ''Uploaded '' @ str_nat (length (rows df))
                                               @ '' transactions, created '' @ str_nat (length chunks)
                                               @ '' chunks'',
                                             up_user_id = user_id\<rparr>,
                                        w\<lparr>store := s3\<rparr>))))"

text \<open>
  \<open>upload_expenses\<close>: the extension check, then the \<open>try\<close> block under
  \<open>except Exception as e: raise HTTPException(status_code=500, detail=str(e))\<close>.
  \<open>HTTPException\<close> is an \<open>Exception\<close>, so the handler takes it too.
\<close>

definition upload_expenses ::
  "env \<Rightarrow> string \<Rightarrow> exn + dataframe \<Rightarrow> string \<Rightarrow> world \<Rightarrow> (exn + upload_response) \<times> world" where
  "upload_expenses E filename read_excel user_id w =
     (if \<not> endswith filename [''.xlsx'', ''.xls'']
      then (Inl (HTTPException 400 ''Only Excel files are supported''), w)
      else (case upload_try E read_excel user_id w of
              (Inl e, w') \<Rightarrow> (Inl (HTTPException 500 (exc_str E e)), w')
            | (Inr r, w') \<Rightarrow> (Inr r, w')))"

subsection \<open>The chat endpoint\<close>

record chat_request =
  question :: string
  user_id :: string

record chat_response =
  answer :: string
  sources :: "string list"

text \<open>\<open>ChatResponse(answer=..., sources=...)\<close>: the answer must be a string.\<close>

definition ChatResponse :: "json \<Rightarrow> string list \<Rightarrow> exn + chat_response" where
  "ChatResponse a srcs =
     (case a of JString t \<Rightarrow> Inr \<lparr>answer = t, sources = srcs\<rparr> | _ \<Rightarrow> Inl ValidationError)"

definition chat_try :: "env \<Rightarrow> chat_request \<Rightarrow> world \<Rightarrow> (exn + chat_response) \<times> world" where
  "chat_try E request w =
     (let cname = collection_name (user_id request)
      in case get_collection cname (store w) of
           Inl _ \<Rightarrow>
             (Inl (HTTPException 404 ''No expense data found. Please upload an Excel file first.''), w)
         | Inr coll \<Rightarrow>
             (case embed_query E (question request) of
                Inl e \<Rightarrow> (Inl e, w)
              | Inr query_embedding \<Rightarrow>
                  (case query_result E coll [query_embedding] 5 of
                     Inl e \<Rightarrow> (Inl e, w)
                   | Inr results \<Rightarrow>
                       let context = join ''\<newline>\<newline>'' (fst results);
                           srcs = map (\<lambda>meta. case map_of meta ''type'' of
                                                  None \<Rightarrow> ''unknown'' | Some t \<Rightarrow> t) (snd results)
                       in case call_lm_studio E (question request) context w of
                            (Inl e, w') \<Rightarrow> (Inl e, w')
                          | (Inr a, w') \<Rightarrow> (ChatResponse a srcs, w'))))"

text \<open>
  \<open>chat\<close>: the \<open>try\<close> block under \<open>except HTTPException: raise\<close> and then
  \<open>except Exception as e: raise HTTPException(status_code=500, detail=str(e))\<close>.
\<close>

definition chat :: "env \<Rightarrow> chat_request \<Rightarrow> world \<Rightarrow> (exn + chat_response) \<times> world" where
  "chat E request w =
     (case chat_try E request w of
        (Inl (HTTPException c d), w') \<Rightarrow> (Inl (HTTPException c d), w')
      | (Inl e, w') \<Rightarrow> (Inl (HTTPException 500 (exc_str E e)), w')
      | (Inr r, w') \<Rightarrow> (Inr r, w'))"

subsection \<open>The health endpoint\<close>

record health_response =
  status :: string
  lm_studio_connected :: bool

definition health_probe_url :: string where
  "health_probe_url = ''http://10.0.85.2:1234/v1/models''"

definition health_check :: "env \<Rightarrow> exn + health_response" where
  "health_check E =
     (let lm_studio_status =
            (case http_get E health_probe_url 5 of
               Inl _ \<Rightarrow> False
             | Inr response \<Rightarrow> status_code response = 200)
      in Inr \<lparr>status = ''healthy'', lm_studio_connected = lm_studio_status\<rparr>)"

subsection \<open>A sample environment and sample inputs\<close>

text \<open>
  Concrete collaborators for running the model: \<open>str\<close> of an exception as Starlette and
  Python print it, an embedding that maps a text to its length, a store that never refuses,
  a query that answers with the first documents of the collection, and a completion
  endpoint that answers \<open>ok\<close>.

  The sample operations of pandas compute with the exact values. On the prices of the
  samples below, which are dyadic fractions with few digits, this is what binary floating
  point gives: their sums and means are exact, and \<open>.2f\<close> rounds the exact value of a double
  to the nearest hundredth.
\<close>

text \<open>Rounding of an exact value to the nearest integer, ties to the even neighbour.\<close>

definition round_half_even :: "rat \<Rightarrow> int" where
  "round_half_even x =
     (let f = \<lfloor>x\<rfloor>; r = x - of_int f
      in if r < 1 / 2 then f else if 1 / 2 < r then f + 1 else if even f then f else f + 1)"

text \<open>The number of hundredths that the format \<open>.2f\<close> prints for \<open>x\<close>, with the sign of \<open>x\<close>.\<close>

definition hundredths :: "rat \<Rightarrow> int" where
  "hundredths x = (if x < 0 then - round_half_even (- x * 100) else round_half_even (x * 100))"

text \<open>
  The format \<open>.2f\<close> of an exact value: a negative \<open>x\<close> keeps its sign also when it rounds
  to zero.
\<close>

definition exact_2f :: "rat \<Rightarrow> string" where
  "exact_2f x =
     (let c = nat \<bar>hundredths x\<bar>
      in (if x < 0 then ''-'' else '''') @ str_nat (c div 100) @ ''.'' @ zfill 2 (str_nat (c mod 100)))"

definition sample_pandas :: pandas where
  "sample_pandas =
     \<lparr>price_sum = sum_list,
      price_mean = (\<lambda>xs. sum_list xs / of_nat (length xs)),
      format_2f = exact_2f,
      categories_json = (\<lambda>_. ''{}''),
      series_str = (\<lambda>i v. ''    '' @ v @ ''\<newline>Name: '' @ str_nat i @ '', dtype: object'')\<rparr>"

fun sample_str :: "exn \<Rightarrow> string" where
  "sample_str (HTTPException c d) = str_nat c @ '': '' @ d"
| "sample_str (ValueError s) = s"
| "sample_str (KeyError k) = [CHR 0x27] @ k @ [CHR 0x27]"
| "sample_str IndexError = ''list index out of range''"
| "sample_str TypeError = ''object is not subscriptable''"
| "sample_str ValidationError = ''validation error''"
| "sample_str (HTTPStatusError c) = ''status '' @ str_nat c"
| "sample_str (TransportError s) = s"
| "sample_str (LibraryError s) = s"

definition sample_completion :: json where
  "sample_completion =
     JObject [(''choices'', JArray [JObject [(''message'', JObject [(''content'', JString ''ok'')])]])]"

definition sample_env :: env where
  "sample_env =
     \<lparr>exc_str = sample_str,
      pd = sample_pandas,
      embed_documents = (\<lambda>ts. Inr (map (\<lambda>t. [of_nat (length t)]) ts)),
      embed_query = (\<lambda>q. Inr [of_nat (length q)]),
      create_fault = (\<lambda>_. None),
      add_fault = (\<lambda>_ _. None),
      query_result = (\<lambda>c _ k. Inr (map doc_text (take k (documents c)),
                                      map doc_metadata (take k (documents c)))),
      http_post = (\<lambda>_. Inr \<lparr>status_code = 200, body = Inr sample_completion\<rparr>),
      http_get = (\<lambda>_ _. Inr \<lparr>status_code = 200, body = Inr (JObject [])\<rparr>)\<rparr>"


definition no_embedding_env :: env where
  "no_embedding_env = sample_env\<lparr>embed_documents := (\<lambda>_. Inl (LibraryError ''model not loaded''))\<rparr>"

definition empty_world :: world where
  "empty_world = \<lparr>store = Map.empty, posts = []\<rparr>"

text \<open>The two transactions of the specification's scenario.\<close>

definition sample_df :: dataframe where
  "sample_df =
     \<lparr>columns = [''name'', ''price'', ''category'', ''date''],
      rows =
        [\<lparr>name = ''Coffee'', price = 45 / 10, category = ''Food'', date = Timestamp 2024 1 5\<rparr>,
         \<lparr>name = ''Rent'', price = 1200, category = ''Housing'', date = Timestamp 2024 1 1\<rparr>]\<rparr>"

text \<open>A sheet without the \<open>category\<close> column.\<close>

definition df_no_category :: dataframe where
  "df_no_category = \<lparr>columns = [''name'', ''price'', ''date''], rows = []\<rparr>"

text \<open>A sheet with the four columns whose only date cell is not a date.\<close>

definition df_bad_date :: dataframe where
  "df_bad_date =
     \<lparr>columns = [''name'', ''price'', ''category'', ''date''],
      rows = [\<lparr>name = ''Coffee'', price = 45 / 10, category = ''Food'', date = NotADate ''soon''\<rparr>]\<rparr>"



text \<open>A store in which the user \<open>alice\<close> has a collection from an earlier upload.\<close>

definition old_collection :: collection where
  "old_collection =
     \<lparr>coll_metadata = [(''user_id'', ''alice'')],
      documents =
        [\<lparr>doc_id = ''alice_0'', doc_text = ''Category: Food'', doc_embedding = [14],
          doc_metadata = [(''type'', ''category_summary''), (''category'', ''Food'')]\<rparr>]\<rparr>"

definition alice_world :: world where
  "alice_world = \<lparr>store = [''expenses_alice'' \<mapsto> old_collection], posts = []\<rparr>"

text \<open>
  An environment in which the model-listing route of the endpoint of \<open>LM_STUDIO_URL\<close>
  answers 200 and no other address can be reached.
\<close>

definition local_lm_env :: env where
  "local_lm_env =
     sample_env\<lparr>http_get := (\<lambda>url _.
        if url = ''http://localhost:1234/v1/models''
        then Inr \<lparr>status_code = 200, body = Inr (JObject [])\<rparr>
        else Inl (TransportError ''connection refused''))\<rparr>"


subsection \<open>Notions of the specification\<close>

text \<open>The calendar month of a date cell that converts.\<close>

fun cell_month :: "date_cell \<Rightarrow> (nat \<times> nat) option" where
  "cell_month (Timestamp y m d) = Some (y, m)"
| "cell_month (NotADate s) = None"

text \<open>
  The model-listing route of the language-model endpoint: \<open>LM_STUDIO_URL\<close> with
  \<open>models\<close> in the place of \<open>chat/completions\<close>.
\<close>

definition lm_models_url :: string where
  "lm_models_url = take (length LM_STUDIO_URL - length ''chat/completions'') LM_STUDIO_URL @ ''models''"






section \<open>Properties\<close>

subsection \<open>The chunk builder\<close>

lemma to_datetime_Inr:
  "to_datetime cs = Inr ds \<Longrightarrow>
     length ds = length cs \<and> map cell_month cs = map (Some \<circ> to_period) ds"
proof (induction cs arbitrary: ds rule: to_datetime.induct)
  case 1
  then show ?case by simp
next
  case (2 s cs)
  then show ?case by simp
next
  case (3 y m d cs)
  then show ?case by (auto simp: to_period_def split: sum.splits)
qed

lemma to_datetime_valid:
  "\<forall>c \<in> set cs. cell_month c \<noteq> None \<Longrightarrow> \<exists>ds. to_datetime cs = Inr ds"
proof (induction cs rule: to_datetime.induct)
  case 1
  then show ?case by simp
next
  case (2 s cs)
  then show ?case by simp
next
  case (3 y m d cs)
  then show ?case by auto
qed

lemma length_groupby: "length (groupby k xs) = card (k ` set xs)"
  by (simp add: groupby_def length_remdups_card_conv)

lemma kind_monthly: "kind (monthly_chunk P r) = Some ''monthly_summary''"
  by (simp add: kind_def monthly_chunk_def Let_def split: prod.splits)

lemma kind_category: "kind (category_chunk P r) = Some ''category_summary''"
  by (simp add: kind_def category_chunk_def split: prod.splits)

lemma kind_transaction: "kind (transaction_chunk P t) = Some ''transaction''"
  by (simp add: kind_def transaction_chunk_def)

lemma filter_map_all: "(\<And>x. P (f x)) \<Longrightarrow> filter P (map f xs) = map f xs"
  by (induction xs) auto

lemma filter_map_none: "(\<And>x. \<not> P (f x)) \<Longrightarrow> filter P (map f xs) = []"
  by (induction xs) auto

lemma count_monthly:
  "length (filter (\<lambda>c. kind c = Some ''monthly_summary'') (build_chunks P ts))
     = card (t_month ` set ts)"
  by (simp add: build_chunks_def filter_map_all filter_map_none kind_monthly kind_category
      kind_transaction monthly_summary_def length_groupby)

lemma count_category:
  "length (filter (\<lambda>c. kind c = Some ''category_summary'') (build_chunks P ts))
     = card (t_category ` set ts)"
  by (simp add: build_chunks_def filter_map_all filter_map_none kind_monthly kind_category
      kind_transaction category_summary_def length_groupby)

lemma count_transaction:
  "length (filter (\<lambda>c. kind c = Some ''transaction'') (build_chunks P ts)) = length ts"
  by (simp add: build_chunks_def filter_map_all filter_map_none kind_monthly kind_category
      kind_transaction)

lemma build_chunks_empty_iff: "build_chunks P ts = [] \<longleftrightarrow> ts = []"
  by (cases ts) (simp_all add: build_chunks_def monthly_summary_def category_summary_def groupby_def)

lemma map2_mk_txn_category:
  "length ds = length rs \<Longrightarrow> map t_category (map2 mk_txn rs ds) = map category rs"
  by (induction rs ds rule: list_induct2') (auto simp: mk_txn_def)

lemma map2_mk_txn_month:
  "length ds = length rs \<Longrightarrow> map t_month (map2 mk_txn rs ds) = map to_period ds"
  by (induction rs ds rule: list_induct2') (auto simp: mk_txn_def)

lemma image_set_eq: "map f xs = map g ys \<Longrightarrow> f ` set xs = g ` set ys"
  by (metis set_map)

text \<open>
  Claim C1. When every date of the sheet converts, \<open>process_excel_data\<close> returns chunks:
  as many of kind \<open>monthly_summary\<close> as the dates have distinct calendar months, as many of
  kind \<open>category_summary\<close> as the rows have distinct categories, and one of kind
  \<open>transaction\<close> per row. The chunk list is empty exactly when the sheet has no row.
\<close>

theorem process_excel_data_counts:
  assumes "\<forall>r \<in> set (rows df). cell_month (date r) \<noteq> None"
  shows "\<exists>chunks. process_excel_data P df = Inr chunks
     \<and> length (filter (\<lambda>c. kind c = Some ''monthly_summary'') chunks)
         = card ((\<lambda>r. cell_month (date r)) ` set (rows df))
     \<and> length (filter (\<lambda>c. kind c = Some ''category_summary'') chunks)
         = card (category ` set (rows df))
     \<and> length (filter (\<lambda>c. kind c = Some ''transaction'') chunks) = length (rows df)
     \<and> ((chunks = []) = (rows df = []))"
proof -
  from assms have "\<forall>c \<in> set (map date (rows df)). cell_month c \<noteq> None" by simp
  then obtain ds where ds: "to_datetime (map date (rows df)) = Inr ds"
    using to_datetime_valid by blast
  let ?ts = "map2 mk_txn (rows df) ds"
  from to_datetime_Inr[OF ds]
  have len: "length ds = length (rows df)"
    and months: "map cell_month (map date (rows df)) = map (Some \<circ> to_period) ds" by simp_all
  have p: "process_excel_data P df = Inr (build_chunks P ?ts)"
    by (simp add: process_excel_data_def parse_dates_def ds)
  have m1: "t_month ` set ?ts = to_period ` set ds"
    by (rule image_set_eq[OF map2_mk_txn_month[OF len]])
  have "(Some \<circ> to_period) ` set ds = cell_month ` set (map date (rows df))"
    by (rule image_set_eq[OF months[symmetric]])
  then have m2: "Some ` (to_period ` set ds) = (\<lambda>r. cell_month (date r)) ` set (rows df)"
    by (simp add: image_image)
  have "card (Some ` (to_period ` set ds)) = card (to_period ` set ds)"
    by (rule card_image) simp
  with m1 m2 have cm:
    "card (t_month ` set ?ts) = card ((\<lambda>r. cell_month (date r)) ` set (rows df))"
    by simp
  have "t_category ` set ?ts = category ` set (rows df)"
    by (rule image_set_eq[OF map2_mk_txn_category[OF len]])
  then have cc: "card (t_category ` set ?ts) = card (category ` set (rows df))" by simp
  have lt: "length ?ts = length (rows df)" using len by simp
  have e: "(build_chunks P ?ts = []) = (rows df = [])"
    using lt build_chunks_empty_iff[of P ?ts] by (metis length_0_conv)
  show ?thesis
    using p count_monthly[of P ?ts] count_category[of P ?ts] count_transaction[of P ?ts]
      cm cc lt e
    by simp
qed

theorem process_excel_data_counts_witness:
  "\<exists>chunks. process_excel_data sample_pandas sample_df = Inr chunks
     \<and> length (filter (\<lambda>c. kind c = Some ''monthly_summary'') chunks) = 1
     \<and> length (filter (\<lambda>c. kind c = Some ''category_summary'') chunks) = 2
     \<and> length (filter (\<lambda>c. kind c = Some ''transaction'') chunks) = 2
     \<and> chunks \<noteq> []"
proof -
  have h: "\<forall>r \<in> set (rows sample_df). cell_month (date r) \<noteq> None"
    by (simp add: sample_df_def)
  have c1: "card ((\<lambda>r. cell_month (date r)) ` set (rows sample_df)) = 1"
    by (simp add: sample_df_def)
  have c2: "card (category ` set (rows sample_df)) = 2"
    by (simp add: sample_df_def)
  have c3: "length (rows sample_df) = 2" "rows sample_df \<noteq> []"
    by (simp_all add: sample_df_def)
  from process_excel_data_counts[OF h, of sample_pandas] show ?thesis
    unfolding c1 c2 c3(1) using c3(2) by auto
qed



subsection \<open>Collection names\<close>

lemma replace_hyphen:
  "replace ''-'' ''_'' s = map (\<lambda>c. if c = CHR ''-'' then CHR ''_'' else c) s"
proof (induction s)
  case Nil
  show ?case by (subst replace.simps) simp
next
  case (Cons c cs)
  show ?case
  proof (cases "c = CHR ''-''")
    case True
    have "replace ''-'' ''_'' (c # cs) = ''_'' @ replace ''-'' ''_'' cs"
      by (subst replace.simps) (simp add: True)
    then show ?thesis using True by (simp add: Cons.IH)
  next
    case False
    then have "\<not> prefix ''-'' (c # cs)" by auto
    then have "replace ''-'' ''_'' (c # cs) = c # replace ''-'' ''_'' cs"
      by (subst replace.simps) simp
    then show ?thesis using False by (simp add: Cons.IH)
  qed
qed

lemma upload_other_names:
  "n \<noteq> collection_name uid \<Longrightarrow> store (snd (upload_expenses E f rx uid w)) n = store w n"
  by (auto simp: upload_expenses_def upload_try_def Let_def delete_collection_def
      create_collection_def collection_add_def
      split: sum.splits option.splits if_splits prod.splits)

lemma call_lm_studio_result_indep: "fst (call_lm_studio E q ctx w1) = fst (call_lm_studio E q ctx w2)"
  by (simp add: call_lm_studio_def Let_def split: sum.splits)

lemma fst_case_result:
  "fst (case p of (Inl e, w') \<Rightarrow> (Inl e, w') | (Inr a, w') \<Rightarrow> (g a, w'))
     = (case fst p of Inl e \<Rightarrow> Inl e | Inr a \<Rightarrow> g a)"
  by (cases p) (auto split: sum.splits)

lemma fst_chat_try:
  "fst (chat_try E rq w) =
     (case store w (collection_name (user_id rq)) of
        None \<Rightarrow> Inl (HTTPException 404 ''No expense data found. Please upload an Excel file first.'')
      | Some coll \<Rightarrow>
          (case embed_query E (question rq) of
             Inl e \<Rightarrow> Inl e
           | Inr v \<Rightarrow>
               (case query_result E coll [v] 5 of
                  Inl e \<Rightarrow> Inl e
                | Inr res \<Rightarrow>
                    (case fst (call_lm_studio E (question rq) (join ''\<newline>\<newline>'' (fst res)) w) of
                       Inl e \<Rightarrow> Inl e
                     | Inr a \<Rightarrow>
                         ChatResponse a
                           (map (\<lambda>meta. case map_of meta ''type'' of None \<Rightarrow> ''unknown'' | Some t \<Rightarrow> t)
                              (snd res))))))"
  by (simp add: chat_try_def get_collection_def Let_def fst_case_result
      split: option.splits sum.splits)

lemma fst_chat:
  "fst (chat E rq w) =
     (case fst (chat_try E rq w) of
        Inl (HTTPException c d) \<Rightarrow> Inl (HTTPException c d)
      | Inl e \<Rightarrow> Inl (HTTPException 500 (exc_str E e))
      | Inr r \<Rightarrow> Inr r)"
  by (cases "chat_try E rq w") (auto simp: chat_def split: sum.splits exn.splits)

lemma chat_reads_one_name:
  assumes "store w1 (collection_name (user_id rq)) = store w2 (collection_name (user_id rq))"
  shows "fst (chat E rq w1) = fst (chat E rq w2)"
proof -
  have "fst (chat_try E rq w1) = fst (chat_try E rq w2)"
    unfolding fst_chat_try assms
    by (simp add: call_lm_studio_result_indep[of E _ _ w1 w2] split: option.splits sum.splits)
  then show ?thesis by (simp add: fst_chat)
qed

subsection \<open>The upload endpoint: validation\<close>

text \<open>
  Claim C9. When the file name ends neither in \<open>.xlsx\<close> nor in \<open>.xls\<close>, the upload
  answers 400 with the detail \<open>Only Excel files are supported\<close>, whatever reading the file
  would give, and leaves the store as it was.
\<close>

theorem upload_unsupported_extension:
  assumes "\<not> suffix ''.xlsx'' filename" and "\<not> suffix ''.xls'' filename"
  shows "upload_expenses E filename read_excel uid w
           = (Inl (HTTPException 400 ''Only Excel files are supported''), w)
     \<and> http_status (fst (upload_expenses E filename read_excel uid w)) = 400"
  using assms by (simp add: upload_expenses_def endswith_def http_status_def)

theorem upload_unsupported_extension_witness:
  "upload_expenses sample_env ''expenses.csv'' (Inr sample_df) ''alice'' alice_world
     = (Inl (HTTPException 400 ''Only Excel files are supported''), alice_world)
   \<and> http_status (fst (upload_expenses sample_env ''expenses.csv'' (Inr sample_df) ''alice'' alice_world)) = 400"
proof -
  have a: "\<not> suffix ''.xlsx'' ''expenses.csv''" by (simp add: suffix_def)
  have b: "\<not> suffix ''.xls'' ''expenses.csv''" by (simp add: suffix_def)
  show ?thesis by (rule upload_unsupported_extension[OF a b])
qed

subsection \<open>The chat endpoint without data\<close>

text \<open>
  Claim C5. When the store has no collection under the user's collection name, \<open>chat\<close>
  answers 404 with a detail that asks for an upload first; the handler for other exceptions
  does not turn it into a 500.
\<close>

theorem chat_without_collection:
  assumes "store w (collection_name (user_id request)) = None"
  shows "chat E request w
           = (Inl (HTTPException 404 ''No expense data found. Please upload an Excel file first.''), w)
     \<and> http_status (fst (chat E request w)) = 404"
  using assms by (simp add: chat_def chat_try_def get_collection_def http_status_def)

theorem chat_without_collection_witness:
  "chat sample_env \<lparr>question = ''How much did I spend?'', user_id = ''bob''\<rparr> alice_world
     = (Inl (HTTPException 404 ''No expense data found. Please upload an Excel file first.''), alice_world)
   \<and> http_status (fst (chat sample_env \<lparr>question = ''How much did I spend?'', user_id = ''bob''\<rparr> alice_world)) = 404"
proof -
  have n: "collection_name ''bob'' = ''expenses_bob''"
    by (simp add: collection_name_def replace_hyphen)
  have h: "store alice_world (collection_name (user_id \<lparr>question = ''How much did I spend?'', user_id = ''bob''\<rparr>)) = None"
    by (simp add: n alice_world_def)
  show ?thesis by (rule chat_without_collection[OF h])
qed

subsection \<open>The upload endpoint: a missing column\<close>

text \<open>
  Claim C3, on the code. For a file named \<open>expenses.xlsx\<close> whose sheet lacks the
  \<open>category\<close> column, the \<open>HTTPException\<close> with status 400 that names the column is raised
  inside the \<open>try\<close> block and caught by its \<open>except Exception\<close> handler: the upload
  answers 500, with \<open>str\<close> of the caught exception as detail.
\<close>

theorem upload_missing_category_is_500:
  "upload_expenses E ''expenses.xlsx'' (Inr df_no_category) uid w
     = (Inl (HTTPException 500
          (exc_str E (HTTPException 400
             (''Missing required columns: ['' @ [CHR 0x27] @ ''category'' @ [CHR 0x27] @ '']'')))), w)
   \<and> http_status (fst (upload_expenses E ''expenses.xlsx'' (Inr df_no_category) uid w)) = 500"
  by (simp add: upload_expenses_def upload_try_def endswith_def suffix_def df_no_category_def
      required_columns_def str_list_def http_status_def Let_def)

subsection \<open>The collection of a user\<close>

text \<open>
  Claim C7. The collection name of a user identifier is \<open>expenses_\<close> followed by the
  identifier with every hyphen replaced by an underscore. An upload changes the store at
  most under that name, and the answer of \<open>chat\<close> depends on the store only through the
  collection under that name. Two identifiers have the same collection name exactly when
  they are equal after the replacement of hyphens, so distinct identifiers such as
  \<open>a-b\<close> and \<open>a_b\<close> share one collection.
\<close>

theorem collection_name_shared:
  "collection_name uid = ''expenses_'' @ map (\<lambda>c. if c = CHR ''-'' then CHR ''_'' else c) uid
   \<and> (\<forall>n. n \<noteq> collection_name uid \<longrightarrow>
          store (snd (upload_expenses E f rx uid w)) n = store w n)
   \<and> (store w1 (collection_name (user_id rq)) = store w2 (collection_name (user_id rq)) \<longrightarrow>
          fst (chat E rq w1) = fst (chat E rq w2))
   \<and> ((collection_name uid = collection_name uid') =
          (map (\<lambda>c. if c = CHR ''-'' then CHR ''_'' else c) uid
             = map (\<lambda>c. if c = CHR ''-'' then CHR ''_'' else c) uid'))"
  using upload_other_names[of _ uid E f rx w] chat_reads_one_name[of w1 rq w2 E]
  by (simp add: collection_name_def replace_hyphen)

theorem collection_name_shared_witness:
  "collection_name ''a-b'' = ''expenses_a_b''
   \<and> collection_name ''a_b'' = ''expenses_a_b''
   \<and> ''a-b'' \<noteq> ''a_b''
   \<and> store (snd (upload_expenses sample_env ''expenses.xlsx'' (Inr sample_df) ''bob'' alice_world))
         ''expenses_alice'' = Some old_collection
   \<and> fst (chat sample_env \<lparr>question = ''q'', user_id = ''a-b''\<rparr> alice_world)
       = fst (chat sample_env \<lparr>question = ''q'', user_id = ''a-b''\<rparr> empty_world)"
proof -
  have n1: "collection_name ''a-b'' = ''expenses_a_b''"
    using collection_name_shared[of "''a-b''"] by simp
  have n2: "collection_name ''a_b'' = ''expenses_a_b''"
    by (simp add: collection_name_def replace_hyphen)
  have n3: "collection_name ''bob'' = ''expenses_bob''"
    by (simp add: collection_name_def replace_hyphen)
  have "store (snd (upload_expenses sample_env ''expenses.xlsx'' (Inr sample_df) ''bob'' alice_world))
         ''expenses_alice'' = store alice_world ''expenses_alice''"
    using collection_name_shared[of "''bob''" sample_env "''expenses.xlsx''" "Inr sample_df" alice_world]
    by (simp add: n3)
  then have u: "store (snd (upload_expenses sample_env ''expenses.xlsx'' (Inr sample_df) ''bob'' alice_world))
         ''expenses_alice'' = Some old_collection"
    by (simp add: alice_world_def)
  have "store alice_world (collection_name ''a-b'') = store empty_world (collection_name ''a-b'')"
    by (simp add: n1 alice_world_def empty_world_def)
  then have c: "fst (chat sample_env \<lparr>question = ''q'', user_id = ''a-b''\<rparr> alice_world)
       = fst (chat sample_env \<lparr>question = ''q'', user_id = ''a-b''\<rparr> empty_world)"
    using collection_name_shared[of "''a-b''" sample_env "''expenses.xlsx''" "Inr sample_df" alice_world
        alice_world "\<lparr>question = ''q'', user_id = ''a-b''\<rparr>" empty_world]
    by simp
  show ?thesis using n1 n2 u c by simp
qed

subsection \<open>The answer generator and the chat endpoint\<close>









subsection \<open>The health endpoint\<close>

lemma health_check_outcome:
  "health_check E
     = Inr \<lparr>status = ''healthy'',
            lm_studio_connected =
              (case http_get E health_probe_url 5 of Inl _ \<Rightarrow> False | Inr r \<Rightarrow> status_code r = 200)\<rparr>
   \<and> http_status (health_check E) = 200"
  by (simp add: health_check_def http_status_def)

lemma lm_models_url_value: "lm_models_url = ''http://localhost:1234/v1/models''"
  by (simp add: lm_models_url_def LM_STUDIO_URL_def)

text \<open>
  Claim C6, on the code. \<open>health_check\<close> returns the body with \<open>status\<close> \<open>healthy\<close> for
  every outcome of its probe, but the probe does not go to the language-model endpoint:
  it goes to the fixed address \<open>http://10.0.85.2:1234/v1/models\<close>, not to the
  model-listing route of \<open>LM_STUDIO_URL\<close>. When that route answers 200 and the fixed address
  cannot be reached, \<open>health_check\<close> reports \<open>lm_studio_connected\<close> false.
\<close>

theorem health_check_probes_fixed_address:
  "health_probe_url = ''http://10.0.85.2:1234/v1/models''
   \<and> lm_models_url = ''http://localhost:1234/v1/models''
   \<and> health_probe_url \<noteq> lm_models_url
   \<and> http_get local_lm_env lm_models_url 5 = Inr \<lparr>status_code = 200, body = Inr (JObject [])\<rparr>
   \<and> health_check local_lm_env = Inr \<lparr>status = ''healthy'', lm_studio_connected = False\<rparr>
   \<and> http_status (health_check local_lm_env) = 200"
  by (simp add: lm_models_url_value health_probe_url_def health_check_def http_status_def
      local_lm_env_def)

subsection \<open>The request to the completion endpoint\<close>



subsection \<open>What the summary chunks report\<close>


















subsection \<open>The upload endpoint: the store\<close>

lemma process_excel_data_valid:
  assumes "\<forall>r \<in> set (rows df). cell_month (date r) \<noteq> None"
  shows "\<exists>ts. parse_dates df = Inr ts \<and> process_excel_data P df = Inr (build_chunks P ts)
     \<and> length ts = length (rows df)"
proof -
  from assms have "\<forall>c \<in> set (map date (rows df)). cell_month c \<noteq> None" by simp
  then obtain ds where ds: "to_datetime (map date (rows df)) = Inr ds"
    using to_datetime_valid by blast
  from to_datetime_Inr[OF ds] have "length ds = length (rows df)" by simp
  then show ?thesis
    by (simp add: process_excel_data_def parse_dates_def ds)
qed

lemma sample_chunks: "\<exists>chunks. process_excel_data P sample_df = Inr chunks"
proof -
  have "\<forall>r \<in> set (rows sample_df). cell_month (date r) \<noteq> None"
    by (simp add: sample_df_def)
  from process_excel_data_valid[OF this, of P] show ?thesis by blast
qed

lemma excel_name: "endswith ''expenses.xlsx'' [''.xlsx'', ''.xls'']"
  by (simp add: endswith_def suffix_def)

lemma no_missing_columns:
  "set required_columns \<subseteq> set (columns df) \<Longrightarrow>
     filter (\<lambda>col. col \<notin> set (columns df)) required_columns = []"
  by (auto simp: filter_empty_conv)

lemma sample_columns: "set required_columns \<subseteq> set (columns sample_df)"
  by (simp add: required_columns_def sample_df_def)

lemma alice_name: "collection_name ''alice'' = ''expenses_alice''"
  unfolding collection_name_def replace_hyphen by simp

lemma upload_expenses_rejects:
  "endswith f [''.xlsx'', ''.xls''] \<Longrightarrow> fst (upload_try E rx uid w) = Inl e \<Longrightarrow>
     fst (upload_expenses E f rx uid w) = Inl (HTTPException 500 (exc_str E e))
     \<and> snd (upload_expenses E f rx uid w) = snd (upload_try E rx uid w)"
  by (cases "upload_try E rx uid w") (simp add: upload_expenses_def)

text \<open>The metadata of a category chunk holds a Series, which \<open>collection.add\<close> refuses.\<close>

lemma category_chunk_refused: "\<not> accepted_metadata (metadata (category_chunk P r))"
  by (simp add: category_chunk_def accepted_metadata_def split: prod.splits)

lemma category_summary_nonempty: "ts \<noteq> [] \<Longrightarrow> category_summary P ts \<noteq> []"
proof -
  assume "ts \<noteq> []"
  then have "0 < card (t_category ` set ts)"
    by (simp add: card_gt_0_iff)
  moreover have "length (category_summary P ts) = card (t_category ` set ts)"
    by (simp add: category_summary_def length_groupby)
  ultimately show ?thesis by auto
qed

lemma build_chunks_refused:
  assumes "ts \<noteq> []"
  shows "\<not> list_all accepted_metadata (map metadata (build_chunks P ts))"
proof -
  from category_summary_nonempty[OF assms, of P]
  have "hd (category_summary P ts) \<in> set (category_summary P ts)" by simp
  then have "category_chunk P (hd (category_summary P ts)) \<in> set (build_chunks P ts)"
    by (simp add: build_chunks_def)
  then show ?thesis
    using category_chunk_refused[of P "hd (category_summary P ts)"] by (auto simp: list_all_iff)
qed

lemma collection_add_refuses:
  "\<exists>e. collection_add E n texts embs (map metadata (build_chunks P ts))
          (map g [0..<length (build_chunks P ts)]) s = Inl e"
proof (cases "ts = []")
  case True
  then have "build_chunks P ts = []" by (simp add: build_chunks_empty_iff)
  then show ?thesis by (simp add: collection_add_def)
next
  case False
  from build_chunks_refused[OF this, of P] show ?thesis
    by (simp add: collection_add_def)
qed

lemma upload_try_wipes:
  assumes "set required_columns \<subseteq> set (columns df)"
    and "process_excel_data (pd E) df = Inr chunks"
    and "create_fault E (collection_name uid) = None"
  shows "snd (upload_try E (Inr df) uid w)
           = w\<lparr>store := (store w)(collection_name uid \<mapsto>
                  \<lparr>coll_metadata = [(''user_id'', uid)], documents = []\<rparr>)\<rparr>
     \<and> (\<exists>e. fst (upload_try E (Inr df) uid w) = Inl e)"
proof -
  let ?cn = "collection_name uid"
  let ?fresh = "\<lparr>coll_metadata = [(''user_id'', uid)], documents = []\<rparr>"
  from assms(2) obtain ts where ch: "chunks = build_chunks (pd E) ts"
    by (auto simp: process_excel_data_def split: sum.splits)
  define s1 where "s1 = (case delete_collection ?cn (store w) of Inl _ \<Rightarrow> store w | Inr s \<Rightarrow> s)"
  have s1: "s1 = (store w)(?cn := None)"
    by (auto simp: s1_def delete_collection_def split: option.splits)
  have cr: "create_collection E ?cn [(''user_id'', uid)] s1 = Inr ((store w)(?cn \<mapsto> ?fresh))"
    by (simp add: create_collection_def assms(3) s1)
  obtain e where ad: "\<And>embs. \<exists>e. collection_add E ?cn (map chunk_text chunks) embs
      (map metadata chunks) (map (\<lambda>i. uid @ ''_'' @ str_nat i) [0..<length chunks])
      ((store w)(?cn \<mapsto> ?fresh)) = Inl e"
    unfolding ch using collection_add_refuses by blast
  show ?thesis
  proof (cases "embed_documents E (map chunk_text chunks)")
    case (Inl e)
    then show ?thesis
      using no_missing_columns[OF assms(1)] assms(2) cr
      by (simp add: upload_try_def Let_def s1_def[symmetric])
  next
    case (Inr embs)
    from ad[of embs] obtain e where "collection_add E ?cn (map chunk_text chunks) embs
      (map metadata chunks) (map (\<lambda>i. uid @ ''_'' @ str_nat i) [0..<length chunks])
      ((store w)(?cn \<mapsto> ?fresh)) = Inl e" by blast
    then show ?thesis
      using no_missing_columns[OF assms(1)] assms(2) cr Inr
      by (simp add: upload_try_def Let_def s1_def[symmetric])
  qed
qed

lemma upload_try_create_refused:
  assumes "set required_columns \<subseteq> set (columns df)"
    and "process_excel_data (pd E) df = Inr chunks"
    and "create_fault E (collection_name uid) = Some e"
  shows "store (snd (upload_try E (Inr df) uid w)) (collection_name uid) = None"
  using no_missing_columns[OF assms(1)] assms(2,3)
  by (auto simp: upload_try_def Let_def create_collection_def delete_collection_def
      split: option.splits)




lemma upload_try_store_after_chunks:
  assumes "set required_columns \<subseteq> set (columns df)"
    and "process_excel_data (pd E) df = Inr chunks"
  shows "store (snd (upload_try E (Inr df) uid w)) (collection_name uid) = None
     \<or> store (snd (upload_try E (Inr df) uid w)) (collection_name uid)
          = Some \<lparr>coll_metadata = [(''user_id'', uid)], documents = []\<rparr>"
proof (cases "create_fault E (collection_name uid)")
  case None
  from upload_try_wipes[OF assms None, of w] show ?thesis by simp
next
  case (Some e)
  from upload_try_create_refused[OF assms Some, of w] show ?thesis by simp
qed

text \<open>
  Claim C10, amended. When the extension and the columns are accepted and the upload
  fails, it answers 500. If the failure is in a step after the chunks are built (the
  creation of the collection, the embedding, the insertion), the user's earlier documents are
  gone: the collection name is unbound, or bound to a new collection without documents. If
  it is the building of the chunks that raises, the store is left as it was.
\<close>

theorem upload_failure_after_validation:
  assumes "endswith f [''.xlsx'', ''.xls'']"
    and "set required_columns \<subseteq> set (columns df)"
    and "fst (upload_expenses E f (Inr df) uid w) = Inl e"
  shows "http_status (fst (upload_expenses E f (Inr df) uid w)) = 500
     \<and> ((\<exists>x. process_excel_data (pd E) df = Inl x) \<longrightarrow>
           snd (upload_expenses E f (Inr df) uid w) = w)
     \<and> ((\<exists>chunks. process_excel_data (pd E) df = Inr chunks) \<longrightarrow>
           store (snd (upload_expenses E f (Inr df) uid w)) (collection_name uid) = None
           \<or> store (snd (upload_expenses E f (Inr df) uid w)) (collection_name uid)
                = Some \<lparr>coll_metadata = [(''user_id'', uid)], documents = []\<rparr>)"
proof -
  obtain e' where t: "fst (upload_try E (Inr df) uid w) = Inl e'"
    using assms(1,3)
    by (cases "upload_try E (Inr df) uid w") (auto simp: upload_expenses_def split: sum.splits)
  note r = upload_expenses_rejects[OF assms(1) t]
  have a: "http_status (fst (upload_expenses E f (Inr df) uid w)) = 500"
    using r by (simp add: http_status_def)
  have b: "snd (upload_try E (Inr df) uid w) = w"
    if "process_excel_data (pd E) df = Inl x" for x
    using that no_missing_columns[OF assms(2)] by (simp add: upload_try_def)
  have c: "store (snd (upload_try E (Inr df) uid w)) (collection_name uid) = None
           \<or> store (snd (upload_try E (Inr df) uid w)) (collection_name uid)
                = Some \<lparr>coll_metadata = [(''user_id'', uid)], documents = []\<rparr>"
    if "process_excel_data (pd E) df = Inr chunks" for chunks
    by (rule upload_try_store_after_chunks[OF assms(2) that])
  show ?thesis using a b c r by auto
qed

theorem upload_failure_after_validation_witness:
  "http_status (fst (upload_expenses no_embedding_env ''expenses.xlsx'' (Inr sample_df) ''alice'' alice_world)) = 500
   \<and> store alice_world (collection_name ''alice'') = Some old_collection
   \<and> store (snd (upload_expenses no_embedding_env ''expenses.xlsx'' (Inr sample_df) ''alice'' alice_world))
        (collection_name ''alice'')
       = Some \<lparr>coll_metadata = [(''user_id'', ''alice'')], documents = []\<rparr>"
proof -
  obtain chunks where p: "process_excel_data (pd no_embedding_env) sample_df = Inr chunks"
    using sample_chunks by blast
  have cf: "create_fault no_embedding_env (collection_name ''alice'') = None"
    by (simp add: no_embedding_env_def sample_env_def)
  note f = upload_try_wipes[OF sample_columns p cf, of alice_world]
  from f obtain e where e: "fst (upload_try no_embedding_env (Inr sample_df) ''alice'' alice_world) = Inl e"
    by blast
  note r = upload_expenses_rejects[OF excel_name e]
  have h: "fst (upload_expenses no_embedding_env ''expenses.xlsx'' (Inr sample_df) ''alice'' alice_world)
      = Inl (HTTPException 500 (exc_str no_embedding_env e))"
    using r by simp
  have a: "http_status (fst (upload_expenses no_embedding_env ''expenses.xlsx'' (Inr sample_df) ''alice'' alice_world)) = 500"
    using upload_failure_after_validation[OF excel_name sample_columns h] by simp
  have b: "store alice_world (collection_name ''alice'') = Some old_collection"
    by (simp add: alice_name alice_world_def)
  have c: "store (snd (upload_expenses no_embedding_env ''expenses.xlsx'' (Inr sample_df) ''alice'' alice_world))
        (collection_name ''alice'')
       = Some \<lparr>coll_metadata = [(''user_id'', ''alice'')], documents = []\<rparr>"
    using r f by simp
  show ?thesis using a b c by simp
qed

text \<open>
  A sheet with the four columns and a date cell that is not a date, uploaded by a user who
  has a collection: the conversion of the dates raises before the collection is deleted; the
  answer is 500 and the earlier collection is still in the store.
\<close>

theorem upload_processing_failure_counterexample:
  "set required_columns \<subseteq> set (columns df_bad_date)
   \<and> store alice_world (collection_name ''alice'') = Some old_collection
   \<and> upload_expenses sample_env ''expenses.xlsx'' (Inr df_bad_date) ''alice'' alice_world
       = (Inl (HTTPException 500 ''soon''), alice_world)
   \<and> store (snd (upload_expenses sample_env ''expenses.xlsx'' (Inr df_bad_date) ''alice'' alice_world))
        (collection_name ''alice'') = Some old_collection"
proof -
  have a: "set required_columns \<subseteq> set (columns df_bad_date)"
    by (simp add: required_columns_def df_bad_date_def)
  have b: "store alice_world (collection_name ''alice'') = Some old_collection"
    by (simp add: alice_name alice_world_def)
  have p: "process_excel_data (pd sample_env) df_bad_date = Inl (ValueError ''soon'')"
    by (simp add: process_excel_data_def parse_dates_def df_bad_date_def)
  have t: "upload_try sample_env (Inr df_bad_date) ''alice'' alice_world = (Inl (ValueError ''soon''), alice_world)"
    using p no_missing_columns[OF a] by (simp add: upload_try_def)
  have s: "exc_str sample_env (ValueError ''soon'') = ''soon''"
    by (simp add: sample_env_def)
  have c: "upload_expenses sample_env ''expenses.xlsx'' (Inr df_bad_date) ''alice'' alice_world
       = (Inl (HTTPException 500 ''soon''), alice_world)"
    using excel_name t s by (simp add: upload_expenses_def)
  show ?thesis using a b c by simp
qed

end
